theory Spec2Isabelle
  imports Main
begin

section \<open>Error values\<close>

text \<open>
  A Go \<open>error\<close> is known to \<open>recovery.go\<close> through three observations: what its
  \<open>Error()\<close> method does, what \<open>errors.As\<close> finds when it walks the causes, and, for a
  \<open>*net.OpError\<close>, the field \<open>Err\<close>. An error value is modelled by exactly these:
  \<^item> \<open>ErrorString s\<close>: a value with text \<open>s\<close> and no cause (\<open>errors.New\<close>,
    \<open>fmt.Errorf\<close> without \<open>%w\<close>, or an \<open>Unwrap\<close> that returns nil);
  \<^item> \<open>WrapError s e\<close>: a value with text \<open>s\<close> whose \<open>Unwrap() error\<close> returns \<open>e\<close>
    (\<open>fmt.Errorf\<close> with one \<open>%w\<close>, which fixes the text when the value is built, or
    a type of the application; the text of such a type need not repeat that of the
    cause);
  \<^item> \<open>JoinError s es\<close>: a value with text \<open>s\<close> whose \<open>Unwrap() []error\<close> returns the
    non-nil causes \<open>es\<close> (\<open>fmt.Errorf\<close> with several \<open>%w\<close>, or a type of the
    application);
  \<^item> \<open>OpError p e\<close>: a non-nil \<open>*net.OpError\<close> with field \<open>Err = e\<close>, which may be
    nil; \<open>p\<close> is what its \<open>Error()\<close> method writes before the colon, from the fields
    \<open>Op\<close>, \<open>Net\<close>, \<open>Source\<close> and \<open>Addr\<close>.
  The interface value nil is \<open>None\<close> of \<open>goerror option\<close>. Not modelled are nil
  pointers inside an \<open>error\<close> interface, types with an \<open>As\<close> method of their own, types
  of the application whose \<open>Error()\<close> method panics, and the values of \<open>errors.Join\<close>.
\<close>

datatype goerror =
    ErrorString string
  | WrapError string goerror
  | JoinError string "goerror list"
  | OpError string "goerror option"

text \<open>
  A method call on a nil interface value is a run-time panic. The code of
  \<open>recovery.go\<close> can raise it through \<open>(*net.OpError).Error()\<close>, which ends with
  \<open>s += ": " + e.Err.Error()\<close> and does not test \<open>e.Err\<close>.
\<close>

datatype runtime_panic = NilPointerDereference

fun Error :: "goerror \<Rightarrow> runtime_panic + string" where
  "Error (ErrorString s) = Inr s"
| "Error (WrapError s e) = Inr s"
| "Error (JoinError s es) = Inr s"
| "Error (OpError p None) = Inl NilPointerDereference"
| "Error (OpError p (Some e)) =
     (case Error e of Inl x \<Rightarrow> Inl x | Inr m \<Rightarrow> Inr (p @ '': '' @ m))"

text \<open>
  \<open>errors.As(err, &ne)\<close> with \<open>ne\<close> of type \<open>*net.OpError\<close>: the first value of that
  type met when the causes are walked depth first. The result is the field \<open>Err\<close> of the
  value found, which is all the caller reads of it.
\<close>

fun As_OpError :: "goerror \<Rightarrow> goerror option option"
  and As_OpError_list :: "goerror list \<Rightarrow> goerror option option" where
  "As_OpError (ErrorString s) = None"
| "As_OpError (WrapError s e) = As_OpError e"
| "As_OpError (JoinError s es) = As_OpError_list es"
| "As_OpError (OpError p e) = Some e"
| "As_OpError_list [] = None"
| "As_OpError_list (e # es) =
     (case As_OpError e of Some ne \<Rightarrow> Some ne | None \<Rightarrow> As_OpError_list es)"

section \<open>Header maps\<close>

text \<open>
  An \<open>http.Header\<close> is a Go map from names to lists of values. \<open>Get\<close> and \<open>Set\<close> put
  the name they are given into canonical form (first letter and every letter after a
  dash in upper case, the others in lower case; a name with a byte that is not a token
  byte is left as it is) and then read or write the map at that key; the keys already
  in the map are compared as they are.
\<close>

type_synonym Header = "string \<rightharpoonup> string list"

definition lower_byte :: "char \<Rightarrow> char" where
  "lower_byte c =
     (case map_of (zip ''ABCDEFGHIJKLMNOPQRSTUVWXYZ'' ''abcdefghijklmnopqrstuvwxyz'') c of
        Some l \<Rightarrow> l
      | None \<Rightarrow> c)"

definition upper_byte :: "char \<Rightarrow> char" where
  "upper_byte c =
     (case map_of (zip ''abcdefghijklmnopqrstuvwxyz'' ''ABCDEFGHIJKLMNOPQRSTUVWXYZ'') c of
        Some u \<Rightarrow> u
      | None \<Rightarrow> c)"

definition validHeaderFieldByte :: "char \<Rightarrow> bool" where
  "validHeaderFieldByte c =
     (c \<in> set (''abcdefghijklmnopqrstuvwxyz'' @ ''ABCDEFGHIJKLMNOPQRSTUVWXYZ'' @ ''0123456789''
               @ ''!#$%&*+-.^_`|~'' @ [CHR 0x27]))"

fun canonical_bytes :: "bool \<Rightarrow> string \<Rightarrow> string" where
  "canonical_bytes upper [] = []"
| "canonical_bytes upper (c # cs) =
     (let c' = (if upper then upper_byte c else lower_byte c)
      in c' # canonical_bytes (c' = CHR ''-'') cs)"

definition CanonicalMIMEHeaderKey :: "string \<Rightarrow> string" where
  "CanonicalMIMEHeaderKey s = (if list_all validHeaderFieldByte s then canonical_bytes True s else s)"

definition Get :: "Header \<Rightarrow> string \<Rightarrow> string" where
  "Get H key =
     (case H (CanonicalMIMEHeaderKey key) of
        None \<Rightarrow> []
      | Some [] \<Rightarrow> []
      | Some (v # vs) \<Rightarrow> v)"

definition Set_header :: "Header \<Rightarrow> string \<Rightarrow> string \<Rightarrow> Header" where
  "Set_header H key v = H(CanonicalMIMEHeaderKey key \<mapsto> [v])"

section \<open>Requests and the objects they refer to\<close>

text \<open>
  Header maps, requests and body streams are objects that several references can share,
  so they live in a store. An address is an index into the list of objects of its kind;
  allocation appends. A nil map or a nil body is \<open>None\<close>. A body stream is the text that
  has not been read from it yet.
\<close>

type_synonym addr = nat

record Request =
  Method :: string
  URL :: string
  Header :: "addr option"
  Body :: "addr option"

record heap =
  headers :: "Header list"
  requests :: "Request list"
  bodies :: "string list"

definition header_of :: "heap \<Rightarrow> addr option \<Rightarrow> Header" where
  "header_of hp ref = (case ref of None \<Rightarrow> Map.empty | Some a \<Rightarrow> headers hp ! a)"

definition Clone :: "heap \<Rightarrow> addr option \<Rightarrow> addr option \<times> heap" where
  "Clone hp ref =
     (case ref of
        None \<Rightarrow> (None, hp)
      | Some a \<Rightarrow> (Some (length (headers hp)), hp\<lparr>headers := headers hp @ [headers hp ! a]\<rparr>))"

definition Set_at :: "heap \<Rightarrow> addr \<Rightarrow> string \<Rightarrow> string \<Rightarrow> heap" where
  "Set_at hp a key v = hp\<lparr>headers := (headers hp)[a := Set_header (headers hp ! a) key v]\<rparr>"

section \<open>Library code that is a parameter\<close>

text \<open>
  The code of the Go library is not part of \<open>recovery.go\<close>. Where its behaviour is a
  matter of Unicode tables or of the wire format, it is a parameter of the model; the
  theorems about the code hold for every value of the parameters:
  \<^item> \<open>Map_ToLower\<close>: \<open>strings.Map(unicode.ToLower, s)\<close>, which \<open>strings.ToLower\<close>
    returns for a string with a byte of 128 or more;
  \<^item> \<open>TrimFunc_IsSpace\<close> and \<open>TrimRightFunc_IsSpace\<close>:
    \<open>strings.TrimFunc(s, unicode.IsSpace)\<close> and \<open>strings.TrimRightFunc(s, unicode.IsSpace)\<close>,
    to which \<open>strings.TrimSpace\<close> hands over when it meets such a byte at an end of
    the string;
  \<^item> \<open>DumpRequest_text\<close>: the text that \<open>httputil.DumpRequest(req, false)\<close> writes, or
    the error it returns, as a function of the request and of the contents of its
    header map;
  \<^item> \<open>fmt_PANIC\<close>: what package \<open>fmt\<close> prints for the verb \<open>%v\<close> when the \<open>Error()\<close>
    method of the value panics (it recovers the panic and prints a note instead).
\<close>

type_synonym serializer = "Request \<Rightarrow> Header \<Rightarrow> goerror + string"

record library =
  Map_ToLower :: "string \<Rightarrow> string"
  TrimFunc_IsSpace :: "string \<Rightarrow> string"
  TrimRightFunc_IsSpace :: "string \<Rightarrow> string"
  DumpRequest_text :: serializer
  fmt_PANIC :: string

section \<open>Strings\<close>

text \<open>
  A Go string is a sequence of bytes, and so is a HOL \<open>string\<close>. \<open>strings.ToLower\<close>
  and \<open>strings.TrimSpace\<close> work on the bytes as long as these are ASCII, and so does
  the model; beyond that they are the parameters above. \<open>strings.Contains\<close> compares
  bytes. A byte is ASCII when its highest bit is not set.
\<close>

definition is_ascii :: "char \<Rightarrow> bool" where
  "is_ascii c = (\<not> digit7 c)"

definition ToLower :: "library \<Rightarrow> string \<Rightarrow> string" where
  "ToLower lib s = (if list_all is_ascii s then map lower_byte s else Map_ToLower lib s)"

fun HasPrefix :: "string \<Rightarrow> string \<Rightarrow> bool" where
  "HasPrefix s [] = True"
| "HasPrefix [] (p # ps) = False"
| "HasPrefix (c # cs) (p # ps) = (c = p \<and> HasPrefix cs ps)"

fun Contains :: "string \<Rightarrow> string \<Rightarrow> bool" where
  "Contains [] substr = (substr = [])"
| "Contains (c # cs) substr = (HasPrefix (c # cs) substr \<or> Contains cs substr)"

definition is_space :: "char \<Rightarrow> bool" where
  "is_space c = (c \<in> set [CHR 0x09, CHR 0x0A, CHR 0x0B, CHR 0x0C, CHR 0x0D, CHR 0x20])"

text \<open>
  \<open>strings.TrimSpace\<close> skips the ASCII white space at the start; when the byte it
  stops at is not ASCII, it returns \<open>TrimFunc\<close> of what is left. Otherwise it skips the
  ASCII white space at the end; when the byte it stops at there is not ASCII, it
  returns \<open>TrimRightFunc\<close> of what is left, and the rest as it is otherwise.
\<close>

definition TrimSpace :: "library \<Rightarrow> string \<Rightarrow> string" where
  "TrimSpace lib s =
     (case dropWhile is_space s of
        [] \<Rightarrow> []
      | c # cs \<Rightarrow>
          if \<not> is_ascii c then TrimFunc_IsSpace lib (c # cs)
          else (case dropWhile is_space (rev (c # cs)) of
                  [] \<Rightarrow> []
                | d # ds \<Rightarrow>
                    if \<not> is_ascii d then TrimRightFunc_IsSpace lib (rev (d # ds))
                    else rev (d # ds)))"

text \<open>
  The verb \<open>%v\<close> of package \<open>fmt\<close> on an error: the text of its \<open>Error()\<close> method, or
  the note of \<open>fmt\<close> when that method panics.
\<close>

definition verb_v :: "library \<Rightarrow> goerror \<Rightarrow> string" where
  "verb_v lib err = (case Error err of Inl x \<Rightarrow> fmt_PANIC lib | Inr m \<Rightarrow> m)"

section \<open>The Broken-Pipe Classifier\<close>

text \<open>
  \<open>isBrokenPipe\<close> applies the same test to one of two errors: call \<open>Error()\<close>,
  lower-case the text and look for the two phrases. The test on a text is
  \<open>broken_phrase\<close>, the test on an error \<open>text_is_broken\<close>; it panics when \<open>Error()\<close>
  does. The second test is reached when \<open>errors.As\<close> finds nothing, and also when it
  finds a \<open>*net.OpError\<close> whose \<open>Err\<close> is nil.
\<close>

definition broken_phrase :: "library \<Rightarrow> string \<Rightarrow> bool" where
  "broken_phrase lib msg =
     (let s = ToLower lib msg
      in Contains s ''broken pipe'' \<or> Contains s ''connection reset by peer'')"

definition text_is_broken :: "library \<Rightarrow> goerror \<Rightarrow> runtime_panic + bool" where
  "text_is_broken lib e = (case Error e of Inl x \<Rightarrow> Inl x | Inr m \<Rightarrow> Inr (broken_phrase lib m))"

definition isBrokenPipe :: "library \<Rightarrow> goerror option \<Rightarrow> runtime_panic + bool" where
  "isBrokenPipe lib err =
     (case err of
        None \<Rightarrow> Inr False
      | Some e \<Rightarrow>
          (case As_OpError e of
             Some (Some ne_Err) \<Rightarrow> text_is_broken lib ne_Err
           | _ \<Rightarrow> text_is_broken lib e))"

section \<open>The snapshot builder\<close>

definition sensitive :: "string list" where
  "sensitive = [''Authorization'', ''Proxy-Authorization'', ''Cookie'', ''Set-Cookie'',
                ''X-Api-Key'', ''X-Auth-Token'']"

definition marker :: string where
  "marker = ''***REDACTED***''"

text \<open>
  The loop of \<open>dumpRequestSafe\<close> over the sensitive names. \<open>Get\<close> on a nil map returns
  the empty string, so \<open>Set\<close> is never reached for it.
\<close>

fun redact_loop :: "heap \<Rightarrow> addr option \<Rightarrow> string list \<Rightarrow> heap" where
  "redact_loop hp redacted [] = hp"
| "redact_loop hp redacted (h # hs) =
     redact_loop
       (case redacted of
          None \<Rightarrow> hp
        | Some a \<Rightarrow> if Get (headers hp ! a) h \<noteq> [] then Set_at hp a h marker else hp)
       redacted hs"

text \<open>
  The effects of \<open>httputil.DumpRequest(req, false)\<close> on the request are written out:
  with \<open>body = false\<close> it sets \<open>req.Body\<close> to nil, writes the request line and the
  headers into a buffer, returns early when that fails, and otherwise puts \<open>req.Body\<close>
  back. The text is the parameter \<open>DumpRequest_text\<close>, applied to the request as it
  stands then (the body reference nil) and to the contents of its header map.
\<close>

definition DumpRequest_head :: "library \<Rightarrow> heap \<Rightarrow> addr \<Rightarrow> (goerror + string) \<times> heap" where
  "DumpRequest_head lib hp req =
     (let save = Body (requests hp ! req);
          hp1 = hp\<lparr>requests := (requests hp)[req := (requests hp ! req)\<lparr>Body := None\<rparr>]\<rparr>
      in case DumpRequest_text lib (requests hp1 ! req) (header_of hp1 (Header (requests hp1 ! req))) of
           Inl err \<Rightarrow> (Inl err, hp1)
         | Inr dump \<Rightarrow>
             (Inr dump, hp1\<lparr>requests := (requests hp1)[req := (requests hp1 ! req)\<lparr>Body := save\<rparr>]\<rparr>))"

text \<open>
  The part of \<open>dumpRequestSafe\<close> before the call of \<open>DumpRequest\<close>: clone the header map,
  redact the clone in place, allocate \<open>r2\<close>, copy \<open>*r\<close> into it and point its \<open>Header\<close> at
  the clone. The result is the address of \<open>r2\<close> and the store.
\<close>

definition redacted_copy :: "heap \<Rightarrow> addr \<Rightarrow> addr \<times> heap" where
  "redacted_copy hp r =
     (let (redacted, hp1) = Clone hp (Header (requests hp ! r));
          hp2 = redact_loop hp1 redacted sensitive;
          r2 = length (requests hp2);
          hp3 = hp2\<lparr>requests := requests hp2 @ [requests hp2 ! r]\<rparr>;
          hp4 = hp3\<lparr>requests := (requests hp3)[r2 := (requests hp3 ! r2)\<lparr>Header := redacted\<rparr>]\<rparr>
      in (r2, hp4))"

definition dumpRequestSafe :: "library \<Rightarrow> heap \<Rightarrow> addr \<Rightarrow> string \<times> heap" where
  "dumpRequestSafe lib hp r =
     (let (r2, hp4) = redacted_copy hp r;
          (res, hp5) = DumpRequest_head lib hp4 r2
      in case res of
           Inl err \<Rightarrow> (''could not dump request: '' @ verb_v lib err, hp5)
         | Inr dump \<Rightarrow> (TrimSpace lib dump, hp5))"

section \<open>The interceptor\<close>

text \<open>
  The \<open>gin.Context\<close> of the request in flight, as far as the interceptor uses it: the
  request pointer, the errors recorded with \<open>c.Error\<close>, whether \<open>c.Abort\<close> has been
  called, and the responses rendered through the context, each a status code and a JSON
  object. A JSON object is its list of fields in the order of their keys, which is the
  order in which a Go map is encoded.
\<close>

type_synonym json = "(string \<times> string) list"

record Context =
  Request :: addr
  Errors :: "goerror list"
  aborted :: bool
  responses :: "(nat \<times> json) list"

text \<open>
  A call of \<open>log.Printf\<close> is kept as the format with its arguments, in the order of the
  call. Formatting does not panic: for an error whose \<open>Error()\<close> method panics, \<open>%v\<close>
  prints the note of \<open>fmt\<close> (see \<open>verb_v\<close>).
\<close>

datatype logarg =
    Duration int
  | Str string
  | Bool bool
  | Err goerror
  | Bytes string

record world =
  mem :: heap
  ctx :: Context
  logs :: "(string \<times> logarg list) list"
  clock :: int

text \<open>
  What the rest of the handler chain does is a parameter: from a state it either returns
  or panics, with the value given to \<open>panic\<close> and the text that \<open>debug.Stack()\<close> prints
  in the deferred function, and it leaves a state behind. A panic value is either an
  \<open>error\<close> or any other value, of which only its \<open>%v\<close> text matters.
\<close>

datatype panic_value = IsError goerror | Other string

datatype outcome = Returned | Panicked panic_value string

definition as_error :: "panic_value \<Rightarrow> goerror" where
  "as_error rec = (case rec of IsError v \<Rightarrow> v | Other v \<Rightarrow> ErrorString v)"

definition Error_ctx :: "Context \<Rightarrow> goerror \<Rightarrow> Context" where
  "Error_ctx c err = c\<lparr>Errors := Errors c @ [err]\<rparr>"

definition Abort :: "Context \<Rightarrow> Context" where
  "Abort c = c\<lparr>aborted := True\<rparr>"

definition AbortWithStatusJSON :: "Context \<Rightarrow> nat \<Rightarrow> json \<Rightarrow> Context" where
  "AbortWithStatusJSON c code obj = (let c1 = Abort c in c1\<lparr>responses := responses c1 @ [(code, obj)]\<rparr>)"

definition GetHeader :: "world \<Rightarrow> string \<Rightarrow> string" where
  "GetHeader w key = Get (header_of (mem w) (Header (requests (mem w) ! Request (ctx w)))) key"

definition panic_format :: string where
  "panic_format =
     ''[PANIC] %s | %s %s | brokenPipe=%t | err=%v\<newline>Request:\<newline>%s\<newline>Stack:\<newline>%s''"

definition Printf :: "world \<Rightarrow> string \<Rightarrow> logarg list \<Rightarrow> world" where
  "Printf w format args = w\<lparr>logs := logs w @ [(format, args)]\<rparr>"

text \<open>
  The deferred function of \<open>RecoveryJSON\<close> when \<open>recover()\<close> returns a value
  (lines 24 to 63 of \<open>recovery.go\<close>). Its first call is the classifier (line 35). When
  that call panics, the deferred function is left at once, with nothing logged and
  nothing written, and the new panic leaves the handler: the result is
  \<open>Some\<close> of the panic and the state as it was. Otherwise the result is \<open>None\<close> and
  the state after logging and answering.
\<close>

definition recovered ::
  "library \<Rightarrow> int \<Rightarrow> panic_value \<Rightarrow> string \<Rightarrow> world \<Rightarrow> runtime_panic option \<times> world" where
  "recovered lib start rec stack w =
     (let err = as_error rec
      in case isBrokenPipe lib (Some err) of
           Inl x \<Rightarrow> (Some x, w)
         | Inr brokenPipe \<Rightarrow>
             (let (reqDump, hp) = dumpRequestSafe lib (mem w) (Request (ctx w));
                  w1 = w\<lparr>mem := hp\<rparr>;
                  req = requests (mem w1) ! Request (ctx w1);
                  w2 = Printf w1 panic_format
                         [Duration (clock w1 - start), Str (Method req), Str (URL req),
                          Bool brokenPipe, Err err, Str reqDump, Bytes stack]
              in if brokenPipe then (None, w2\<lparr>ctx := Abort (Error_ctx (ctx w2) err)\<rparr>)
                 else let reqID = GetHeader w2 ''X-Request-ID''
                      in (None, w2\<lparr>ctx := AbortWithStatusJSON (ctx w2) 500
                                     [(''error'', ''internal_error''),
                                      (''message'', ''Something went wrong''),
                                      (''requestId'', reqID)]\<rparr>)))"

text \<open>
  The handler: it reads the clock, runs the rest of the chain, and does nothing more
  when the chain returns.
\<close>

definition RecoveryJSON ::
  "library \<Rightarrow> (world \<Rightarrow> outcome \<times> world) \<Rightarrow> world \<Rightarrow> runtime_panic option \<times> world" where
  "RecoveryJSON lib Next w0 =
     (let start = clock w0
      in case Next w0 of
           (Returned, w) \<Rightarrow> (None, w)
         | (Panicked rec stack, w) \<Rightarrow> recovered lib start rec stack w)"

section \<open>Notions used to state the properties\<close>

text \<open>
  The levels of an error value: the value itself and all its causes. A level has a
  phrase when its \<open>Error()\<close> method returns a text with one of the two phrases in it.
\<close>

fun levels :: "goerror \<Rightarrow> goerror list"
  and levels_list :: "goerror list \<Rightarrow> goerror list" where
  "levels (ErrorString s) = [ErrorString s]"
| "levels (WrapError s e) = WrapError s e # levels e"
| "levels (JoinError s es) = JoinError s es # levels_list es"
| "levels (OpError p None) = [OpError p None]"
| "levels (OpError p (Some e)) = OpError p (Some e) # levels e"
| "levels_list [] = []"
| "levels_list (e # es) = levels e @ levels_list es"

definition has_phrase :: "library \<Rightarrow> goerror \<Rightarrow> bool" where
  "has_phrase lib e = (case Error e of Inl x \<Rightarrow> False | Inr m \<Rightarrow> broken_phrase lib m)"

definition any_level :: "library \<Rightarrow> goerror \<Rightarrow> bool" where
  "any_level lib e = list_ex (has_phrase lib) (levels e)"

text \<open>
  The wrap chain of an error value: the values reached by calling \<open>Unwrap() error\<close>
  again and again; a \<open>*net.OpError\<close> unwraps to its field \<open>Err\<close>. The outermost
  \<open>*net.OpError\<close> of a chain is the first one on it; \<open>outermost_Err\<close> is its field
  \<open>Err\<close>.
\<close>

fun wrap_chain :: "goerror \<Rightarrow> goerror list" where
  "wrap_chain (ErrorString s) = [ErrorString s]"
| "wrap_chain (WrapError s e) = WrapError s e # wrap_chain e"
| "wrap_chain (JoinError s es) = [JoinError s es]"
| "wrap_chain (OpError p None) = [OpError p None]"
| "wrap_chain (OpError p (Some e)) = OpError p (Some e) # wrap_chain e"

fun outermost_Err :: "goerror list \<Rightarrow> goerror option option" where
  "outermost_Err [] = None"
| "outermost_Err (OpError p e # es) = Some e"
| "outermost_Err (ErrorString s # es) = outermost_Err es"
| "outermost_Err (WrapError s e # es) = outermost_Err es"
| "outermost_Err (JoinError s cs # es) = outermost_Err es"

text \<open>
  The redaction loop on the contents of one map, to say what the clone holds when the
  loop is over.
\<close>

fun redact :: "Header \<Rightarrow> string list \<Rightarrow> Header" where
  "redact H [] = H"
| "redact H (h # hs) = redact (if Get H h \<noteq> [] then Set_header H h marker else H) hs"

text \<open>
  A request pointer is valid in a store when it points to a request of the store whose
  header map, if it has one, is a map of the store. Go has no other pointers.
\<close>

definition valid_request :: "heap \<Rightarrow> addr \<Rightarrow> bool" where
  "valid_request hp r =
     (r < length (requests hp) \<and>
      (case Header (requests hp ! r) of None \<Rightarrow> True | Some a \<Rightarrow> a < length (headers hp)))"

text \<open>
  The snapshot: the request value and the header contents that \<open>dumpRequestSafe\<close> hands
  to \<open>DumpRequest\<close>, and the text \<open>dumpRequestSafe\<close> makes of what \<open>DumpRequest\<close>
  returns.
\<close>

definition snapshot_request :: "heap \<Rightarrow> addr \<Rightarrow> Request" where
  "snapshot_request hp r = (let (r2, hp4) = redacted_copy hp r in (requests hp4 ! r2)\<lparr>Body := None\<rparr>)"

definition snapshot_header :: "heap \<Rightarrow> addr \<Rightarrow> Header" where
  "snapshot_header hp r =
     (let (r2, hp4) = redacted_copy hp r in header_of hp4 (Header (requests hp4 ! r2)))"

definition dump_text :: "library \<Rightarrow> goerror + string \<Rightarrow> string" where
  "dump_text lib res =
     (case res of
        Inl err \<Rightarrow> ''could not dump request: '' @ verb_v lib err
      | Inr dump \<Rightarrow> TrimSpace lib dump)"

definition request_of :: "world \<Rightarrow> Request" where
  "request_of w = requests (mem w) ! Request (ctx w)"

definition inbound_header :: "world \<Rightarrow> Header" where
  "inbound_header w = header_of (mem w) (Header (request_of w))"

section \<open>Sample requests, library values and handler chains\<close>

text \<open>
  A sample serializer, which writes the request line and the values of four headers,
  a line for each value, and one that fails. The samples are ASCII texts, on which the
  library parameters for other texts have no bearing; they are set to the identity.
\<close>

definition CRLF :: string where
  "CRLF = [CHR 0x0D, CHR 0x0A]"

definition write_header :: "Header \<Rightarrow> string \<Rightarrow> string" where
  "write_header H k =
     (case H k of None \<Rightarrow> [] | Some vs \<Rightarrow> concat (map (\<lambda>v. k @ '': '' @ v @ CRLF) vs))"

definition sample_ser :: serializer where
  "sample_ser req H =
     Inr (Method req @ '' '' @ URL req @ '' HTTP/1.1'' @ CRLF
          @ concat (map (write_header H) [''Accept'', ''Authorization'', ''Cookie'', ''Set-Cookie''])
          @ CRLF)"

definition failing_ser :: serializer where
  "failing_ser req H = Inl (ErrorString ''short write'')"

definition sample_lib :: library where
  "sample_lib =
     \<lparr>Map_ToLower = (\<lambda>s. s), TrimFunc_IsSpace = (\<lambda>s. s), TrimRightFunc_IsSpace = (\<lambda>s. s),
      DumpRequest_text = sample_ser, fmt_PANIC = ''%!v(PANIC=Error method: runtime error: invalid memory address or nil pointer dereference)''\<rparr>"

definition failing_lib :: library where
  "failing_lib = sample_lib\<lparr>DumpRequest_text := failing_ser\<rparr>"

definition sample_heap :: heap where
  "sample_heap =
     \<lparr>headers = [[''Accept'' \<mapsto> [''*/*''], ''Authorization'' \<mapsto> [''secret123'']]],
      requests = [\<lparr>Method = ''GET'', URL = ''/panel/api'', Header = Some 0, Body = Some 0\<rparr>],
      bodies = [''{}'']\<rparr>"

definition sample_world :: world where
  "sample_world =
     \<lparr>mem = sample_heap,
      ctx = \<lparr>Request = 0, Errors = [], aborted = False, responses = []\<rparr>,
      logs = [],
      clock = 1000\<rparr>"

definition traced_heap :: heap where
  "traced_heap =
     sample_heap\<lparr>headers :=
       [[''X-Request-Id'' \<mapsto> [''req-42''], ''Cookie'' \<mapsto> [[], ''sid=abc''],
         ''Set-Cookie'' \<mapsto> [''a=1'', ''b=2'']]]\<rparr>"

definition traced_world :: world where
  "traced_world = sample_world\<lparr>mem := traced_heap\<rparr>"

text \<open>
  A store whose request carries two \<open>Authorization\<close> lines, the first of them empty,
  as a client can send them.
\<close>

definition leak_heap :: heap where
  "leak_heap =
     sample_heap\<lparr>headers := [[''Accept'' \<mapsto> [''*/*''], ''Authorization'' \<mapsto> [[], ''Bearer t0ken'']]]\<rparr>"

definition boom_chain :: "world \<Rightarrow> outcome \<times> world" where
  "boom_chain w = (Panicked (Other ''boom'') ''goroutine 7 [running]'', w\<lparr>clock := clock w + 250\<rparr>)"

definition pipe_error :: goerror where
  "pipe_error =
     WrapError ''flush: write tcp 10.0.0.1:2053: write: broken pipe''
       (OpError ''write tcp 10.0.0.1:2053'' (Some (ErrorString ''write: broken pipe'')))"

definition pipe_chain :: "world \<Rightarrow> outcome \<times> world" where
  "pipe_chain w = (Panicked (IsError pipe_error) ''goroutine 9 [running]'', w\<lparr>clock := clock w + 40\<rparr>)"

definition ok_chain :: "world \<Rightarrow> outcome \<times> world" where
  "ok_chain w = (Returned, w\<lparr>ctx := (ctx w)\<lparr>responses := [(200, [(''success'', ''true'')])]\<rparr>\<rparr>)"

text \<open>
  A handler that panics with \<open>&net.OpError{Op: "dial"}\<close>, a \<open>*net.OpError\<close> whose \<open>Err\<close>
  is not set.
\<close>

definition dial_chain :: "world \<Rightarrow> outcome \<times> world" where
  "dial_chain w =
     (Panicked (IsError (OpError ''dial'' None)) ''goroutine 11 [running]'', w\<lparr>clock := clock w + 5\<rparr>)"

text \<open>
  Error values as \<open>fmt.Errorf\<close> with \<open>%w\<close> and package \<open>net\<close> build them: the timeout
  of a write, wrapped with a text that mentions a broken pipe; a read on a closed
  connection, wrapped with a text that mentions a reset; an error with no network
  operation in it; a wrapped \<open>*net.OpError\<close> whose \<open>Err\<close> is not set; and a write
  error whose cause wraps, with a text that mentions a broken pipe, the timeout of a
  dial.
\<close>

definition timeout_error :: goerror where
  "timeout_error =
     WrapError ''broken pipe suspected: write tcp 10.0.0.1:2053: i/o timeout''
       (OpError ''write tcp 10.0.0.1:2053'' (Some (ErrorString ''i/o timeout'')))"

definition closed_error :: goerror where
  "closed_error =
     WrapError ''Connection Reset By Peer? read tcp 10.0.0.1:2053: use of closed network connection''
       (OpError ''read tcp 10.0.0.1:2053'' (Some (ErrorString ''use of closed network connection'')))"

definition plain_error :: goerror where
  "plain_error = WrapError ''load settings: file does not exist'' (ErrorString ''file does not exist'')"

definition unset_error :: goerror where
  "unset_error = WrapError ''dial failed: BROKEN PIPE'' (OpError ''dial'' None)"

definition dial_timeout :: goerror where
  "dial_timeout = OpError ''dial tcp 10.0.0.9:443'' (Some (ErrorString ''i/o timeout''))"

definition nested_error :: goerror where
  "nested_error =
     OpError ''write tcp 10.0.0.1:2053''
       (Some (WrapError ''broken pipe while proxying: dial tcp 10.0.0.9:443: i/o timeout''
                dial_timeout))"

section \<open>Facts about the classifier\<close>

lemma self_in_levels: "e \<in> set (levels e)"
  by (cases e rule: levels.cases) auto

lemma As_OpError_levels:
  "As_OpError e = Some (Some ne) \<Longrightarrow> ne \<in> set (levels e)"
  "As_OpError_list es = Some (Some ne) \<Longrightarrow> ne \<in> set (levels_list es)"
proof (induction e and es rule: As_OpError_As_OpError_list.induct)
  case (4 p e)
  then show ?case by (auto simp: self_in_levels)
next
  case (6 e es)
  then show ?case by (auto split: option.splits)
qed auto

lemma any_level_iff: "any_level lib e = (\<exists>x\<in>set (levels e). has_phrase lib x)"
  by (simp add: any_level_def list_ex_iff)

lemma outermost_As_OpError:
  "outermost_Err (wrap_chain e) = Some x \<Longrightarrow> As_OpError e = Some x"
  by (induction e rule: wrap_chain.induct) auto

lemma chain_outermost:
  "OpError p (Some i) \<in> set (wrap_chain e) \<Longrightarrow> \<exists>ne. outermost_Err (wrap_chain e) = Some (Some ne)"
  by (induction e rule: wrap_chain.induct) auto

lemma isBrokenPipe_found:
  "As_OpError e = Some (Some ne) \<Longrightarrow> isBrokenPipe lib (Some e) = text_is_broken lib ne"
  by (simp add: isBrokenPipe_def)

lemma isBrokenPipe_top:
  "\<forall>ne. As_OpError e \<noteq> Some (Some ne) \<Longrightarrow> isBrokenPipe lib (Some e) = text_is_broken lib e"
  by (simp add: isBrokenPipe_def split: option.splits)

lemma text_is_broken_True:
  "text_is_broken lib x = Inr True \<Longrightarrow> has_phrase lib x"
  by (simp add: text_is_broken_def has_phrase_def split: sum.splits)

lemmas eval_phrase = isBrokenPipe_def text_is_broken_def has_phrase_def broken_phrase_def
  ToLower_def is_ascii_def lower_byte_def Let_def

lemma sample_lib_fields:
  "DumpRequest_text sample_lib = sample_ser"
  "DumpRequest_text failing_lib = failing_ser"
  by (simp_all add: sample_lib_def failing_lib_def)

section \<open>The Broken-Pipe Classifier: properties\<close>

text \<open>
  Claim C3, as amended. The classifier returns false for nil. It never returns true
  when no level of the error has a text with ``broken pipe'' or ``connection reset by
  peer'' in it (letter case ignored). When \<open>errors.As\<close> finds a \<open>*net.OpError\<close> whose
  \<open>Err\<close> is not nil and \<open>Error()\<close> of that \<open>Err\<close> returns a text, the result is true
  exactly when that text contains one of the phrases; when it finds none, and
  \<open>Error()\<close> of the error itself returns a text, the result is true exactly when that
  text does. So a phrase at some level is needed for true, but it is not enough.
\<close>

theorem isBrokenPipe_cases:
  "isBrokenPipe lib None = Inr False
   \<and> (\<not> any_level lib e \<longrightarrow> isBrokenPipe lib (Some e) \<noteq> Inr True)
   \<and> (As_OpError e = Some (Some ne) \<and> Error ne = Inr m \<longrightarrow>
        isBrokenPipe lib (Some e) = Inr (broken_phrase lib m))
   \<and> ((\<forall>ne. As_OpError e \<noteq> Some (Some ne)) \<and> Error e = Inr m \<longrightarrow>
        isBrokenPipe lib (Some e) = Inr (broken_phrase lib m))"
proof -
  have nil: "isBrokenPipe lib None = Inr False"
    by (simp add: isBrokenPipe_def)
  have found: "isBrokenPipe lib (Some e) = Inr (broken_phrase lib m)"
    if "As_OpError e = Some (Some ne)" and "Error ne = Inr m" for ne
    using that by (simp add: isBrokenPipe_found text_is_broken_def)
  have top: "isBrokenPipe lib (Some e) = Inr (broken_phrase lib m)"
    if "\<forall>ne. As_OpError e \<noteq> Some (Some ne)" and "Error e = Inr m"
    using that by (simp add: isBrokenPipe_top text_is_broken_def)
  have none: "isBrokenPipe lib (Some e) \<noteq> Inr True" if quiet: "\<not> any_level lib e"
  proof (cases "\<exists>ne. As_OpError e = Some (Some ne)")
    case True
    then obtain ne where ne: "As_OpError e = Some (Some ne)" by blast
    then have "ne \<in> set (levels e)" by (rule As_OpError_levels(1))
    with quiet have "\<not> has_phrase lib ne" by (auto simp: any_level_iff)
    then have "text_is_broken lib ne \<noteq> Inr True" using text_is_broken_True by blast
    then show ?thesis by (simp add: isBrokenPipe_found[OF ne])
  next
    case False
    then have eq: "isBrokenPipe lib (Some e) = text_is_broken lib e"
      by (simp add: isBrokenPipe_top)
    have "\<not> has_phrase lib e"
      using quiet self_in_levels[of e] by (auto simp: any_level_iff)
    then have "text_is_broken lib e \<noteq> Inr True" using text_is_broken_True by blast
    then show ?thesis by (simp add: eq)
  qed
  from nil none found top show ?thesis by blast
qed

text \<open>
  The cases at sample values: an error with no phrase anywhere, a broken pipe inside
  a \<open>*net.OpError\<close>, and a \<open>*net.OpError\<close> without \<open>Err\<close> under a text with the phrase
  in capitals.
\<close>

theorem isBrokenPipe_cases_witness:
  "\<not> any_level sample_lib plain_error \<and> isBrokenPipe sample_lib (Some plain_error) = Inr False
   \<and> As_OpError pipe_error = Some (Some (ErrorString ''write: broken pipe''))
   \<and> isBrokenPipe sample_lib (Some pipe_error) = Inr True
   \<and> (\<forall>ne. As_OpError unset_error \<noteq> Some (Some ne))
   \<and> isBrokenPipe sample_lib (Some unset_error) = Inr True"
proof -
  have h1: "\<not> any_level sample_lib plain_error"
    by (simp add: plain_error_def any_level_def eval_phrase)
  have t1: "\<forall>ne. As_OpError plain_error \<noteq> Some (Some ne)"
    "Error plain_error = Inr ''load settings: file does not exist''"
    by (simp_all add: plain_error_def)
  have p1: "\<not> broken_phrase sample_lib ''load settings: file does not exist''"
    by (simp add: eval_phrase)
  have h2: "As_OpError pipe_error = Some (Some (ErrorString ''write: broken pipe''))"
    "Error (ErrorString ''write: broken pipe'') = Inr ''write: broken pipe''"
    by (simp_all add: pipe_error_def)
  have p2: "broken_phrase sample_lib ''write: broken pipe''"
    by (simp add: eval_phrase)
  have h3: "\<forall>ne. As_OpError unset_error \<noteq> Some (Some ne)"
    "Error unset_error = Inr ''dial failed: BROKEN PIPE''"
    by (simp_all add: unset_error_def)
  have p3: "broken_phrase sample_lib ''dial failed: BROKEN PIPE''"
    by (simp add: eval_phrase)
  show ?thesis
    using h1 t1 p1 h2 p2 h3 p3
      isBrokenPipe_cases[of sample_lib plain_error "ErrorString ''x''" "''load settings: file does not exist''"]
      isBrokenPipe_cases[of sample_lib pipe_error "ErrorString ''write: broken pipe''" "''write: broken pipe''"]
      isBrokenPipe_cases[of sample_lib unset_error "ErrorString ''x''" "''dial failed: BROKEN PIPE''"]
    by simp
qed

text \<open>
  The statement as first written says that a phrase at any level gives true. The text
  of \<open>timeout_error\<close> contains ``broken pipe'', yet the classifier looks only at the
  text of the \<open>Err\<close> of the \<open>*net.OpError\<close> inside, ``i/o timeout'', and returns false.
\<close>

theorem isBrokenPipe_any_level_counterexample:
  "any_level sample_lib timeout_error \<and> isBrokenPipe sample_lib (Some timeout_error) = Inr False"
  by (simp add: timeout_error_def any_level_def eval_phrase)

text \<open>
  Claim C10, as amended. When the wrap chain of an error contains a \<open>*net.OpError\<close>
  whose \<open>Err\<close> is not nil, the outermost \<open>*net.OpError\<close> of the chain has an \<open>Err\<close> that
  is not nil. The result of the classifier is decided by that \<open>Err\<close> alone: when its
  \<open>Error()\<close> returns a text, the classifier returns true exactly when that text has one
  of the phrases, and so false when it has neither, whatever the text of the error
  itself says.
\<close>

theorem isBrokenPipe_outermost_OpError:
  "(OpError p (Some i) \<in> set (wrap_chain e) \<longrightarrow> (\<exists>ne. outermost_Err (wrap_chain e) = Some (Some ne)))
   \<and> (outermost_Err (wrap_chain e) = Some (Some ne) \<and> Error ne = Inr m \<longrightarrow>
        isBrokenPipe lib (Some e) = Inr (broken_phrase lib m))"
proof -
  have "isBrokenPipe lib (Some e) = Inr (broken_phrase lib m)"
    if "outermost_Err (wrap_chain e) = Some (Some ne)" and "Error ne = Inr m"
  proof -
    from that(1) have "As_OpError e = Some (Some ne)" by (rule outermost_As_OpError)
    with that(2) show ?thesis by (simp add: isBrokenPipe_found text_is_broken_def)
  qed
  with chain_outermost[of p i e] show ?thesis by blast
qed

text \<open>
  At \<open>closed_error\<close> the text of the error itself has the phrase ``connection reset by
  peer'' and the text inside the \<open>*net.OpError\<close> has none: the result is false.
\<close>

theorem isBrokenPipe_outermost_OpError_witness:
  "OpError ''read tcp 10.0.0.1:2053'' (Some (ErrorString ''use of closed network connection''))
      \<in> set (wrap_chain closed_error)
   \<and> outermost_Err (wrap_chain closed_error) = Some (Some (ErrorString ''use of closed network connection''))
   \<and> has_phrase sample_lib closed_error
   \<and> isBrokenPipe sample_lib (Some closed_error) = Inr False"
proof -
  have h: "OpError ''read tcp 10.0.0.1:2053'' (Some (ErrorString ''use of closed network connection''))
      \<in> set (wrap_chain closed_error)"
    by (simp add: closed_error_def)
  have top: "has_phrase sample_lib closed_error"
    by (simp add: closed_error_def eval_phrase)
  have out: "outermost_Err (wrap_chain closed_error) = Some (Some (ErrorString ''use of closed network connection''))"
    "Error (ErrorString ''use of closed network connection'') = Inr ''use of closed network connection''"
    by (simp_all add: closed_error_def)
  have inner: "\<not> broken_phrase sample_lib ''use of closed network connection''"
    by (simp add: eval_phrase)
  from isBrokenPipe_outermost_OpError[of "''read tcp 10.0.0.1:2053''"
         "ErrorString ''use of closed network connection''" closed_error
         "ErrorString ''use of closed network connection''" "''use of closed network connection''" sample_lib]
       out inner
  have "isBrokenPipe sample_lib (Some closed_error) = Inr False" by simp
  with h top out show ?thesis by simp
qed

text \<open>
  The statement as first written lets any \<open>*net.OpError\<close> of the chain decide. The
  chain of \<open>nested_error\<close> contains \<open>dial_timeout\<close>, whose \<open>Err\<close> has the text ``i/o
  timeout'' with neither phrase, yet the classifier returns true: \<open>errors.As\<close> finds
  the outer \<open>*net.OpError\<close>, and the text of its \<open>Err\<close> mentions a broken pipe.
\<close>

theorem isBrokenPipe_inner_OpError_counterexample:
  "OpError ''dial tcp 10.0.0.9:443'' (Some (ErrorString ''i/o timeout'')) \<in> set (wrap_chain nested_error)
   \<and> Error (ErrorString ''i/o timeout'') = Inr ''i/o timeout''
   \<and> \<not> broken_phrase sample_lib ''i/o timeout''
   \<and> isBrokenPipe sample_lib (Some nested_error) = Inr True"
  by (simp add: nested_error_def dial_timeout_def eval_phrase)

section \<open>Redaction\<close>

text \<open>
  What the loop over the sensitive names leaves in a map: a key is bound to the marker
  alone when it is the canonical form of a sensitive name whose first value was not
  empty, and is as before otherwise.
\<close>

lemma Get_Set_header:
  "Get (Set_header H h v) h' =
     (if CanonicalMIMEHeaderKey h' = CanonicalMIMEHeaderKey h then v else Get H h')"
  by (simp add: Get_def Set_header_def)

lemma redact_apply:
  "redact H hs k =
     (if \<exists>h\<in>set hs. CanonicalMIMEHeaderKey h = k \<and> Get H h \<noteq> [] then Some [marker] else H k)"
proof (induction hs arbitrary: H)
  case Nil
  then show ?case by simp
next
  case (Cons h hs)
  show ?case
  proof (cases "Get H h \<noteq> []")
    case False
    then have "redact H (h # hs) k = redact H hs k" by simp
    with False show ?thesis by (simp add: Cons.IH)
  next
    case True
    let ?H = "Set_header H h marker"
    have step: "redact H (h # hs) k = redact ?H hs k" using True by simp
    show ?thesis
    proof (cases "CanonicalMIMEHeaderKey h = k")
      case same: True
      have "?H k = Some [marker]" using same by (simp add: Set_header_def)
      then have "redact ?H hs k = Some [marker]" by (simp add: Cons.IH)
      with step same True show ?thesis by auto
    next
      case diff: False
      have keep: "?H k = H k" using diff by (simp add: Set_header_def)
      have get: "\<And>h'. CanonicalMIMEHeaderKey h' = k \<Longrightarrow> Get ?H h' = Get H h'"
        using diff by (simp add: Get_Set_header)
      have "(\<exists>h'\<in>set hs. CanonicalMIMEHeaderKey h' = k \<and> Get ?H h' \<noteq> [])
            = (\<exists>h'\<in>set hs. CanonicalMIMEHeaderKey h' = k \<and> Get H h' \<noteq> [])"
        using get by metis
      then have "redact ?H hs k =
          (if \<exists>h'\<in>set hs. CanonicalMIMEHeaderKey h' = k \<and> Get H h' \<noteq> [] then Some [marker] else H k)"
        by (simp only: Cons.IH keep)
      with step diff show ?thesis by simp
    qed
  qed
qed

lemma sensitive_canonical: "h \<in> set sensitive \<Longrightarrow> CanonicalMIMEHeaderKey h = h"
  by (auto simp: sensitive_def CanonicalMIMEHeaderKey_def validHeaderFieldByte_def
      upper_byte_def lower_byte_def Let_def)


lemma redact_sensitive:
  assumes "h \<in> set sensitive"
  shows "redact H sensitive h = (if Get H h \<noteq> [] then Some [marker] else H h)"
proof -
  have "(\<exists>h'\<in>set sensitive. CanonicalMIMEHeaderKey h' = h \<and> Get H h' \<noteq> []) = (Get H h \<noteq> [])"
    using assms sensitive_canonical by metis
  then show ?thesis by (simp only: redact_apply)
qed

lemma redact_secret_independent:
  assumes h: "h \<in> set sensitive" and old: "Get H h \<noteq> []" and new: "v \<noteq> []"
  shows "redact (H(h \<mapsto> v # vs)) sensitive = redact H sensitive"
proof
  fix k
  let ?H = "H(h \<mapsto> v # vs)"
  have canon: "CanonicalMIMEHeaderKey h = h" using h by (rule sensitive_canonical)
  show "redact ?H sensitive k = redact H sensitive k"
  proof (cases "k = h")
    case True
    have "Get ?H h \<noteq> []" using new canon by (simp add: Get_def)
    with old True h show ?thesis by (simp add: redact_sensitive)
  next
    case False
    have get: "\<And>h'. CanonicalMIMEHeaderKey h' = k \<Longrightarrow> Get ?H h' = Get H h'"
      using False by (simp add: Get_def)
    have "(\<exists>h'\<in>set sensitive. CanonicalMIMEHeaderKey h' = k \<and> Get ?H h' \<noteq> [])
          = (\<exists>h'\<in>set sensitive. CanonicalMIMEHeaderKey h' = k \<and> Get H h' \<noteq> [])"
      using get by metis
    moreover have "?H k = H k" using False by simp
    ultimately show ?thesis by (simp only: redact_apply)
  qed
qed

lemma redact_loop_None: "redact_loop hp None hs = hp"
  by (induction hs) auto

lemma redact_loop_Some:
  "a < length (headers hp) \<Longrightarrow>
   redact_loop hp (Some a) hs = hp\<lparr>headers := (headers hp)[a := redact (headers hp ! a) hs]\<rparr>"
proof (induction hs arbitrary: hp)
  case Nil
  then show ?case by simp
next
  case (Cons h hs)
  then show ?case by (simp add: Set_at_def)
qed

lemma redacted_copy_None:
  "Header (requests hp ! r) = None \<Longrightarrow>
   redacted_copy hp r =
     (length (requests hp), hp\<lparr>requests := requests hp @ [requests hp ! r]\<rparr>)"
  by (simp add: redacted_copy_def Clone_def redact_loop_None)

lemma redacted_copy_Some:
  "Header (requests hp ! r) = Some a \<Longrightarrow>
   redacted_copy hp r =
     (length (requests hp),
      hp\<lparr>headers := headers hp @ [redact (headers hp ! a) sensitive],
         requests := requests hp @ [(requests hp ! r)\<lparr>Header := Some (length (headers hp))\<rparr>]\<rparr>)"
  by (simp add: redacted_copy_def Clone_def redact_loop_Some)

lemma snapshot_header_eq:
  "snapshot_header hp r = redact (header_of hp (Header (requests hp ! r))) sensitive"
proof (cases "Header (requests hp ! r)")
  case None
  then show ?thesis
    by (simp add: snapshot_header_def redacted_copy_None header_of_def)
       (simp add: sensitive_def Get_def)
next
  case (Some a)
  then show ?thesis
    by (simp add: snapshot_header_def redacted_copy_Some header_of_def)
qed

lemma snapshot_request_eq:
  "snapshot_request hp r =
     (requests hp ! r)\<lparr>Header := map_option (\<lambda>a. length (headers hp)) (Header (requests hp ! r)),
                        Body := None\<rparr>"
proof (cases "Header (requests hp ! r)")
  case None
  then show ?thesis
    by (simp add: snapshot_request_def redacted_copy_None)
next
  case (Some a)
  then show ?thesis
    by (simp add: snapshot_request_def redacted_copy_Some)
qed

lemma dumpRequestSafe_text:
  "fst (dumpRequestSafe lib hp r) =
     dump_text lib (DumpRequest_text lib (snapshot_request hp r) (snapshot_header hp r))"
  by (cases "Header (requests hp ! r)")
     (simp_all add: dumpRequestSafe_def snapshot_request_def snapshot_header_def redacted_copy_None
        redacted_copy_Some DumpRequest_head_def dump_text_def Let_def header_of_def split: sum.splits)

lemma dumpRequestSafe_frame:
  "take (length (headers hp)) (headers (snd (dumpRequestSafe lib hp r))) = headers hp
   \<and> take (length (requests hp)) (requests (snd (dumpRequestSafe lib hp r))) = requests hp
   \<and> bodies (snd (dumpRequestSafe lib hp r)) = bodies hp"
  by (cases "Header (requests hp ! r)")
     (simp_all add: dumpRequestSafe_def redacted_copy_None
        redacted_copy_Some DumpRequest_head_def Let_def split: sum.splits)

lemma take_nth_eq:
  assumes "take n ys = xs" and "i < length xs"
  shows "ys ! i = xs ! i"
proof -
  from assms have "i < n" by auto
  then have "take n ys ! i = ys ! i" by simp
  with assms show ?thesis by simp
qed

lemma dumpRequestSafe_original:
  assumes "valid_request hp r"
  shows "requests (snd (dumpRequestSafe lib hp r)) ! r = requests hp ! r
         \<and> header_of (snd (dumpRequestSafe lib hp r)) (Header (requests hp ! r))
             = header_of hp (Header (requests hp ! r))"
proof -
  let ?hp = "snd (dumpRequestSafe lib hp r)"
  have r: "r < length (requests hp)" using assms by (simp add: valid_request_def)
  have treq: "take (length (requests hp)) (requests ?hp) = requests hp"
    and thdr: "take (length (headers hp)) (headers ?hp) = headers hp"
    using dumpRequestSafe_frame[of hp lib r] by blast+
  have req: "requests ?hp ! r = requests hp ! r"
    using treq r by (rule take_nth_eq)
  have "header_of ?hp (Header (requests hp ! r)) = header_of hp (Header (requests hp ! r))"
  proof (cases "Header (requests hp ! r)")
    case None
    then show ?thesis by (simp add: header_of_def)
  next
    case (Some a)
    then have "a < length (headers hp)" using assms by (simp add: valid_request_def)
    with thdr have "headers ?hp ! a = headers hp ! a" by (rule take_nth_eq)
    with Some show ?thesis by (simp add: header_of_def)
  qed
  with req show ?thesis by simp
qed


section \<open>The snapshot builder: properties\<close>

lemma snapshot_header_sensitive:
  assumes "h \<in> set sensitive"
  shows "snapshot_header hp r h =
           (if Get (header_of hp (Header (requests hp ! r))) h \<noteq> [] then Some [marker]
            else header_of hp (Header (requests hp ! r)) h)"
  using assms by (simp only: snapshot_header_eq redact_sensitive)

text \<open>
  What the redaction does achieve. For a sensitive name whose value as \<open>Get\<close> reads
  it (the first value under the canonical key) is not empty, the snapshot holds the
  marker alone, and the text of the dump does not depend on the value: any other
  non-empty value in its place gives the same text. When \<open>Get\<close> reads the empty
  string, the entry is left as it was.
\<close>

lemma dump_redacts_sensitive:
  assumes "h \<in> set sensitive"
    and "Header (requests hp ! r) = Some a"
    and "a < length (headers hp)"
  shows "(Get (headers hp ! a) h \<noteq> [] \<longrightarrow>
            snapshot_header hp r h = Some [marker]
            \<and> (\<forall>v vs. v \<noteq> [] \<longrightarrow>
                  fst (dumpRequestSafe lib (hp\<lparr>headers := (headers hp)[a := (headers hp ! a)(h \<mapsto> v # vs)]\<rparr>) r)
                  = fst (dumpRequestSafe lib hp r)))
         \<and> (Get (headers hp ! a) h = [] \<longrightarrow> snapshot_header hp r h = (headers hp ! a) h)"
proof -
  let ?H = "headers hp ! a"
  have H: "header_of hp (Header (requests hp ! r)) = ?H"
    using assms(2) by (simp add: header_of_def)
  have sens: "snapshot_header hp r h = (if Get ?H h \<noteq> [] then Some [marker] else ?H h)"
    using snapshot_header_sensitive[OF assms(1), of hp r] by (simp only: H)
  have indep: "fst (dumpRequestSafe lib (hp\<lparr>headers := (headers hp)[a := ?H(h \<mapsto> v # vs)]\<rparr>) r)
                 = fst (dumpRequestSafe lib hp r)"
    if old: "Get ?H h \<noteq> []" and new: "v \<noteq> []" for v vs
  proof -
    let ?hp = "hp\<lparr>headers := (headers hp)[a := ?H(h \<mapsto> v # vs)]\<rparr>"
    have "header_of ?hp (Header (requests ?hp ! r)) = ?H(h \<mapsto> v # vs)"
      using assms(2,3) by (simp add: header_of_def)
    then have "snapshot_header ?hp r = redact (?H(h \<mapsto> v # vs)) sensitive"
      by (simp only: snapshot_header_eq)
    also have "\<dots> = redact ?H sensitive"
      using assms(1) old new by (rule redact_secret_independent)
    also have "\<dots> = snapshot_header hp r"
      by (simp only: snapshot_header_eq H)
    finally have hdr: "snapshot_header ?hp r = snapshot_header hp r" .
    have "snapshot_request ?hp r = snapshot_request hp r"
      by (simp add: snapshot_request_eq)
    with hdr show ?thesis by (simp only: dumpRequestSafe_text)
  qed
  from sens indep show ?thesis by simp
qed

text \<open>
  Claim C9. The dump that \<open>dumpRequestSafe\<close> returns is the text \<open>DumpRequest\<close> writes
  for the snapshot (trimmed), and in the snapshot a sensitive header with several
  values is redacted by its first value only. When the first value is the empty
  string, the list of values is handed to \<open>DumpRequest\<close> as it was, the later values
  with it; when the first value is not empty, the whole list is replaced by the single
  value \<open>***REDACTED***\<close>.
\<close>

theorem redaction_first_value:
  assumes "h \<in> set sensitive"
    and "header_of hp (Header (requests hp ! r)) h = Some (v # vs)"
  shows "fst (dumpRequestSafe lib hp r) =
           dump_text lib (DumpRequest_text lib (snapshot_request hp r) (snapshot_header hp r))
         \<and> (v = [] \<longrightarrow> snapshot_header hp r h = Some ([] # vs))
         \<and> (v \<noteq> [] \<longrightarrow> snapshot_header hp r h = Some [marker])"
proof -
  have "CanonicalMIMEHeaderKey h = h" using assms(1) by (rule sensitive_canonical)
  then have "Get (header_of hp (Header (requests hp ! r))) h = v"
    using assms(2) by (simp add: Get_def)
  then have "(v = [] \<longrightarrow> snapshot_header hp r h = Some ([] # vs))
         \<and> (v \<noteq> [] \<longrightarrow> snapshot_header hp r h = Some [marker])"
    using snapshot_header_sensitive[OF assms(1), of hp r] assms(2) by simp
  then show ?thesis by (simp only: dumpRequestSafe_text simp_thms)
qed

section \<open>The interceptor: properties\<close>

lemma RecoveryJSON_Panicked:
  assumes "Next w0 = (Panicked rec stack, w)"
  shows "RecoveryJSON lib Next w0 = recovered lib (clock w0) rec stack w"
  using assms by (simp add: RecoveryJSON_def)

lemma recovered_panics:
  "isBrokenPipe lib (Some (as_error rec)) = Inl x \<Longrightarrow> recovered lib start rec stack w = (Some x, w)"
  by (simp add: recovered_def)

lemma recovered_returns:
  "isBrokenPipe lib (Some (as_error rec)) = Inr b \<Longrightarrow> fst (recovered lib start rec stack w) = None"
  by (simp add: recovered_def Let_def case_prod_beta)

lemma recovered_mem:
  "isBrokenPipe lib (Some (as_error rec)) = Inr b \<Longrightarrow>
   mem (snd (recovered lib start rec stack w)) = snd (dumpRequestSafe lib (mem w) (Request (ctx w)))"
  by (simp add: recovered_def Let_def case_prod_beta Printf_def)

lemma recovered_logs:
  "isBrokenPipe lib (Some (as_error rec)) = Inr b \<Longrightarrow>
   logs (snd (recovered lib start rec stack w)) =
     logs w @ [(panic_format,
        [Duration (clock w - start),
         Str (Method (requests (snd (dumpRequestSafe lib (mem w) (Request (ctx w)))) ! Request (ctx w))),
         Str (URL (requests (snd (dumpRequestSafe lib (mem w) (Request (ctx w)))) ! Request (ctx w))),
         Bool b, Err (as_error rec),
         Str (fst (dumpRequestSafe lib (mem w) (Request (ctx w)))), Bytes stack])]"
  by (simp add: recovered_def Let_def case_prod_beta Printf_def)

lemma recovered_broken:
  "isBrokenPipe lib (Some (as_error rec)) = Inr True \<Longrightarrow>
   ctx (snd (recovered lib start rec stack w)) = Abort (Error_ctx (ctx w) (as_error rec))"
  by (simp add: recovered_def Let_def case_prod_beta Printf_def)

lemma recovered_not_broken:
  "isBrokenPipe lib (Some (as_error rec)) = Inr False \<Longrightarrow>
   ctx (snd (recovered lib start rec stack w)) =
     AbortWithStatusJSON (ctx w) 500
       [(''error'', ''internal_error''), (''message'', ''Something went wrong''),
        (''requestId'',
         Get (header_of (snd (dumpRequestSafe lib (mem w) (Request (ctx w))))
                (Header (requests (snd (dumpRequestSafe lib (mem w) (Request (ctx w)))) ! Request (ctx w))))
             ''X-Request-ID'')]"
  by (simp add: recovered_def Let_def case_prod_beta Printf_def GetHeader_def)

lemma recovered_aborted:
  "isBrokenPipe lib (Some (as_error rec)) = Inr b \<Longrightarrow> aborted (ctx (snd (recovered lib start rec stack w)))"
  by (cases b) (simp_all add: recovered_broken recovered_not_broken Abort_def AbortWithStatusJSON_def)

text \<open>
  Claim C7. When \<open>DumpRequest\<close> returns an error for the redacted snapshot,
  \<open>dumpRequestSafe\<close> returns the text ``could not dump request: '' followed by what
  \<open>%v\<close> prints for the error. The failure stays inside the builder: in an interceptor
  that has got as far as building the snapshot (the classifier has returned), the
  deferred function goes on, writes its one log line with that text as the dump, ends
  with the request aborted, and returns.
\<close>

theorem dump_failure_placeholder:
  assumes "DumpRequest_text lib (snapshot_request hp r) (snapshot_header hp r) = Inl err"
  shows "fst (dumpRequestSafe lib hp r) = ''could not dump request: '' @ verb_v lib err
         \<and> (Next w0 = (Panicked rec stack, w) \<and> mem w = hp \<and> Request (ctx w) = r
              \<and> isBrokenPipe lib (Some (as_error rec)) = Inr b \<longrightarrow>
              fst (RecoveryJSON lib Next w0) = None
              \<and> (\<exists>d m u. logs (snd (RecoveryJSON lib Next w0)) =
                    logs w @ [(panic_format,
                               [Duration d, Str m, Str u, Bool b, Err (as_error rec),
                                Str (''could not dump request: '' @ verb_v lib err), Bytes stack])])
              \<and> aborted (ctx (snd (RecoveryJSON lib Next w0))))"
proof -
  have ph: "fst (dumpRequestSafe lib hp r) = ''could not dump request: '' @ verb_v lib err"
    using assms by (simp add: dumpRequestSafe_text dump_text_def)
  have "fst (RecoveryJSON lib Next w0) = None
        \<and> (\<exists>d m u. logs (snd (RecoveryJSON lib Next w0)) =
              logs w @ [(panic_format,
                         [Duration d, Str m, Str u, Bool b, Err (as_error rec),
                          Str (''could not dump request: '' @ verb_v lib err), Bytes stack])])
        \<and> aborted (ctx (snd (RecoveryJSON lib Next w0)))"
    if nx: "Next w0 = (Panicked rec stack, w)" and m: "mem w = hp" and rq: "Request (ctx w) = r"
      and cl: "isBrokenPipe lib (Some (as_error rec)) = Inr b"
  proof -
    have run: "RecoveryJSON lib Next w0 = recovered lib (clock w0) rec stack w"
      using nx by (rule RecoveryJSON_Panicked)
    have d: "fst (dumpRequestSafe lib (mem w) (Request (ctx w))) = ''could not dump request: '' @ verb_v lib err"
      using ph by (simp only: m rq)
    show ?thesis
      using recovered_returns[OF cl, of "clock w0" stack w]
        recovered_logs[OF cl, of "clock w0" stack w]
        recovered_aborted[OF cl, of "clock w0" stack w]
      by (simp add: run d)
  qed
  with ph show ?thesis by blast
qed

text \<open>
  Claim C5. \<open>dumpRequestSafe\<close> changes no object that existed before it ran: every
  header map and every request of the store is as it was (the store only grows, by the
  cloned map and by the copy \<open>r2\<close>, which is a new object), and no body stream is
  read. The same holds for the interceptor as a whole, whatever the handler chain did
  and whether it returned or panicked: compared with the state the chain left, header
  maps, requests and body streams are unchanged.
\<close>

theorem original_request_untouched:
  "take (length (headers hp)) (headers (snd (dumpRequestSafe lib hp r))) = headers hp
   \<and> take (length (requests hp)) (requests (snd (dumpRequestSafe lib hp r))) = requests hp
   \<and> bodies (snd (dumpRequestSafe lib hp r)) = bodies hp
   \<and> fst (redacted_copy hp r) = length (requests hp)
   \<and> take (length (headers (mem (snd (Next w0))))) (headers (mem (snd (RecoveryJSON lib Next w0))))
       = headers (mem (snd (Next w0)))
   \<and> take (length (requests (mem (snd (Next w0))))) (requests (mem (snd (RecoveryJSON lib Next w0))))
       = requests (mem (snd (Next w0)))
   \<and> bodies (mem (snd (RecoveryJSON lib Next w0))) = bodies (mem (snd (Next w0)))"
proof -
  have fresh: "fst (redacted_copy hp r) = length (requests hp)"
    by (cases "Header (requests hp ! r)") (simp_all add: redacted_copy_None redacted_copy_Some)
  obtain out w where nx: "Next w0 = (out, w)" by (cases "Next w0")
  have world: "take (length (headers (mem w))) (headers (mem (snd (RecoveryJSON lib Next w0)))) = headers (mem w)
     \<and> take (length (requests (mem w))) (requests (mem (snd (RecoveryJSON lib Next w0)))) = requests (mem w)
     \<and> bodies (mem (snd (RecoveryJSON lib Next w0))) = bodies (mem w)"
  proof (cases out)
    case Returned
    with nx show ?thesis by (simp add: RecoveryJSON_def)
  next
    case (Panicked rec stack)
    with nx have run: "RecoveryJSON lib Next w0 = recovered lib (clock w0) rec stack w"
      by (simp add: RecoveryJSON_def)
    show ?thesis
    proof (cases "isBrokenPipe lib (Some (as_error rec))")
      case (Inl x)
      then show ?thesis by (simp add: run recovered_panics)
    next
      case (Inr b)
      then show ?thesis
        using dumpRequestSafe_frame[of "mem w" lib "Request (ctx w)"]
        by (simp add: run recovered_mem)
    qed
  qed
  from dumpRequestSafe_frame[of hp lib r] fresh world nx show ?thesis by simp
qed


text \<open>
  Claim C2. When the handler chain panics and the classifier returns true, the
  interceptor renders no response, records the normalized error on the context,
  aborts the request and returns.
\<close>

theorem broken_pipe_writes_nothing:
  assumes "Next w0 = (Panicked rec stack, w)"
    and "isBrokenPipe lib (Some (as_error rec)) = Inr True"
  shows "responses (ctx (snd (RecoveryJSON lib Next w0))) = responses (ctx w)
         \<and> Errors (ctx (snd (RecoveryJSON lib Next w0))) = Errors (ctx w) @ [as_error rec]
         \<and> aborted (ctx (snd (RecoveryJSON lib Next w0)))
         \<and> fst (RecoveryJSON lib Next w0) = None"
proof -
  have run: "RecoveryJSON lib Next w0 = recovered lib (clock w0) rec stack w"
    using assms(1) by (rule RecoveryJSON_Panicked)
  show ?thesis
    using recovered_broken[OF assms(2), of "clock w0" stack w]
      recovered_returns[OF assms(2), of "clock w0" stack w]
    by (simp add: run Abort_def Error_ctx_def)
qed

text \<open>
  Claim C6. When the handler chain returns, the interceptor returns and leaves the
  state exactly as the chain left it: no log line, no change of the responses, the
  context or the store.
\<close>

theorem no_fault_pass_through:
  assumes "Next w0 = (Returned, w)"
  shows "RecoveryJSON lib Next w0 = (None, w)"
  using assms by (simp add: RecoveryJSON_def)

text \<open>
  The log line of a recovered panic, when the classifier returns: exactly one call of
  \<open>log.Printf\<close> is added to the log, whose arguments are, in this order, the time
  elapsed since the interceptor started, the method, the URL, the result of the
  classifier, the normalized error, the dump of the redacted request, and the stack
  trace.
\<close>

lemma one_log_line:
  assumes "Next w0 = (Panicked rec stack, w)"
    and "isBrokenPipe lib (Some (as_error rec)) = Inr b"
    and "valid_request (mem w) (Request (ctx w))"
  shows "logs (snd (RecoveryJSON lib Next w0)) =
           logs w @
             [(panic_format,
               [Duration (clock w - clock w0),
                Str (Method (request_of w)),
                Str (URL (request_of w)),
                Bool b,
                Err (as_error rec),
                Str (dump_text lib (DumpRequest_text lib (snapshot_request (mem w) (Request (ctx w)))
                                       (snapshot_header (mem w) (Request (ctx w))))),
                Bytes stack])]"
proof -
  have run: "RecoveryJSON lib Next w0 = recovered lib (clock w0) rec stack w"
    using assms(1) by (rule RecoveryJSON_Panicked)
  from dumpRequestSafe_original[OF assms(3), of lib]
  have "requests (snd (dumpRequestSafe lib (mem w) (Request (ctx w)))) ! Request (ctx w) = request_of w"
    by (simp add: request_of_def)
  then show ?thesis
    by (simp add: run recovered_logs[OF assms(2)] dumpRequestSafe_text)
qed

section \<open>The properties at the sample values\<close>

lemmas eval_world = sample_world_def traced_world_def sample_heap_def traced_heap_def leak_heap_def
  valid_request_def inbound_header_def request_of_def header_of_def

lemma sensitive_names:
  "''Authorization'' \<in> set sensitive"
  "''Cookie'' \<in> set sensitive"
  "''Set-Cookie'' \<in> set sensitive"
  by (simp_all add: sensitive_def)

lemma Accept_not_sensitive: "''Accept'' \<notin> set sensitive"
  by (simp add: sensitive_def)

lemma redact_other:
  assumes "k \<notin> set sensitive"
  shows "redact H sensitive k = H k"
proof -
  have "\<not> (\<exists>h\<in>set sensitive. CanonicalMIMEHeaderKey h = k \<and> Get H h \<noteq> [])"
    using assms sensitive_canonical by metis
  then show ?thesis by (simp only: redact_apply if_False)
qed

lemma sample_headers:
  "header_of sample_heap (Header (requests sample_heap ! 0)) =
     [''Accept'' \<mapsto> [''*/*''], ''Authorization'' \<mapsto> [''secret123'']]"
  by (simp add: eval_world)

lemma traced_headers:
  "header_of traced_heap (Header (requests traced_heap ! 0)) =
     [''X-Request-Id'' \<mapsto> [''req-42''], ''Cookie'' \<mapsto> [[], ''sid=abc''],
      ''Set-Cookie'' \<mapsto> [''a=1'', ''b=2'']]"
  by (simp add: eval_world)

lemma leak_headers:
  "header_of leak_heap (Header (requests leak_heap ! 0)) =
     [''Accept'' \<mapsto> [''*/*''], ''Authorization'' \<mapsto> [[], ''Bearer t0ken'']]"
  by (simp add: eval_world)

lemma sample_world_fields:
  "mem sample_world = sample_heap"
  "logs sample_world = []"
  "clock sample_world = 1000"
  "Request (ctx sample_world) = 0"
  "responses (ctx sample_world) = []"
  "Errors (ctx sample_world) = []"
  by (simp_all add: sample_world_def)


lemma sample_request:
  "request_of (sample_world\<lparr>clock := t\<rparr>) =
     \<lparr>Method = ''GET'', URL = ''/panel/api'', Header = Some 0, Body = Some 0\<rparr>"
  "inbound_header (sample_world\<lparr>clock := t\<rparr>) ''X-Request-Id'' = None"
  "inbound_header (traced_world\<lparr>clock := t\<rparr>) ''X-Request-Id'' = Some [''req-42'']"
  by (simp_all add: eval_world)

lemma sample_snapshot:
  "snapshot_request sample_heap 0 = \<lparr>Method = ''GET'', URL = ''/panel/api'', Header = Some 1, Body = None\<rparr>"
  "snapshot_header sample_heap 0 ''Accept'' = Some [''*/*'']"
  "snapshot_header sample_heap 0 ''Authorization'' = Some [''***REDACTED***'']"
  "snapshot_header sample_heap 0 ''Cookie'' = None"
  "snapshot_header sample_heap 0 ''Set-Cookie'' = None"
  by (simp_all add: snapshot_request_eq snapshot_header_eq sample_headers
      redact_other[OF Accept_not_sensitive] redact_sensitive sensitive_names Get_def
      sensitive_canonical marker_def)
     (simp add: eval_world)

lemma leak_snapshot:
  "snapshot_request leak_heap 0 = \<lparr>Method = ''GET'', URL = ''/panel/api'', Header = Some 1, Body = None\<rparr>"
  "snapshot_header leak_heap 0 ''Accept'' = Some [''*/*'']"
  "snapshot_header leak_heap 0 ''Authorization'' = Some [[], ''Bearer t0ken'']"
  "snapshot_header leak_heap 0 ''Cookie'' = None"
  "snapshot_header leak_heap 0 ''Set-Cookie'' = None"
  by (simp_all add: snapshot_request_eq snapshot_header_eq leak_headers
      redact_other[OF Accept_not_sensitive] redact_sensitive sensitive_names Get_def
      sensitive_canonical marker_def)
     (simp add: eval_world)

lemma traced_snapshot:
  "snapshot_request traced_heap 0 = \<lparr>Method = ''GET'', URL = ''/panel/api'', Header = Some 1, Body = None\<rparr>"
  "snapshot_header traced_heap 0 ''Accept'' = None"
  "snapshot_header traced_heap 0 ''Authorization'' = None"
  by (simp_all add: snapshot_request_eq snapshot_header_eq traced_headers
      redact_other[OF Accept_not_sensitive] redact_sensitive sensitive_names Get_def
      sensitive_canonical marker_def)
     (simp add: eval_world)

lemmas eval_dump = dump_text_def sample_lib_fields sample_ser_def write_header_def
  CRLF_def TrimSpace_def is_space_def is_ascii_def

lemma sample_dump:
  "fst (dumpRequestSafe sample_lib sample_heap 0) =
     ''GET /panel/api HTTP/1.1'' @ CRLF @ ''Accept: */*'' @ CRLF @ ''Authorization: ***REDACTED***''"
  by (simp add: dumpRequestSafe_text sample_snapshot eval_dump)

lemma boom_not_broken: "isBrokenPipe lib (Some (as_error (Other ''boom''))) = Inr False"
  by (simp add: as_error_def eval_phrase)

lemma pipe_broken: "isBrokenPipe lib (Some (as_error (IsError pipe_error))) = Inr True"
  by (simp add: as_error_def pipe_error_def eval_phrase)

lemma dial_panics: "isBrokenPipe lib (Some (as_error (IsError (OpError ''dial'' None)))) = Inl NilPointerDereference"
  by (simp add: as_error_def isBrokenPipe_def text_is_broken_def)

text \<open>
  Claim C4. The dump is meant to hold the marker in place of every secret. It does so
  only when the first value of the header is not empty (lemma
  \<open>dump_redacts_sensitive\<close>). For the request of \<open>leak_heap\<close>, with the two values
  \<open>''''\<close> and \<open>Bearer t0ken\<close> under \<open>Authorization\<close>, \<open>Get\<close> reads the empty first
  value, nothing is replaced, and the dump contains the token.
\<close>

theorem empty_first_value_leaks:
  "header_of leak_heap (Header (requests leak_heap ! 0)) ''Authorization'' = Some ['''', ''Bearer t0ken'']
   \<and> snapshot_header leak_heap 0 ''Authorization'' = Some ['''', ''Bearer t0ken'']
   \<and> Contains (fst (dumpRequestSafe sample_lib leak_heap 0)) ''Authorization: Bearer t0ken''"
proof -
  have "fst (dumpRequestSafe sample_lib leak_heap 0) =
      ''GET /panel/api HTTP/1.1'' @ CRLF @ ''Accept: */*'' @ CRLF @ ''Authorization: '' @ CRLF
      @ ''Authorization: Bearer t0ken''"
    by (simp add: dumpRequestSafe_text leak_snapshot eval_dump)
  then have "Contains (fst (dumpRequestSafe sample_lib leak_heap 0)) ''Authorization: Bearer t0ken''"
    by (simp add: CRLF_def)
  then show ?thesis by (simp add: leak_headers leak_snapshot)
qed

text \<open>
  Claim C8. Every recovered panic is meant to leave one log line (and, as the comment
  on \<open>RecoveryJSON\<close> says, a JSON 500). The line is written when the classifier
  returns (lemma \<open>one_log_line\<close>). The classifier does not return for a panic value
  that is a \<open>*net.OpError\<close> whose \<open>Err\<close> is nil, such as \<open>&net.OpError{Op: "dial"}\<close>:
  the test \<open>ne.Err != nil\<close> fails, the code falls through to \<open>err.Error()\<close>, and
  \<open>(*net.OpError).Error\<close> dereferences the nil \<open>Err\<close>. The deferred function panics
  before \<open>log.Printf\<close>: the interceptor ends with a new panic, the log is empty, and
  no response has been rendered.
\<close>

theorem nil_Err_panic_escapes:
  "dial_chain sample_world =
     (Panicked (IsError (OpError ''dial'' None)) ''goroutine 11 [running]'', sample_world\<lparr>clock := 1005\<rparr>)
   \<and> isBrokenPipe sample_lib (Some (as_error (IsError (OpError ''dial'' None)))) = Inl NilPointerDereference
   \<and> fst (RecoveryJSON sample_lib dial_chain sample_world) = Some NilPointerDereference
   \<and> logs (snd (RecoveryJSON sample_lib dial_chain sample_world)) = []
   \<and> responses (ctx (snd (RecoveryJSON sample_lib dial_chain sample_world))) = []
   \<and> \<not> aborted (ctx (snd (RecoveryJSON sample_lib dial_chain sample_world)))"
proof -
  have h: "dial_chain sample_world =
     (Panicked (IsError (OpError ''dial'' None)) ''goroutine 11 [running]'', sample_world\<lparr>clock := 1005\<rparr>)"
    by (simp add: dial_chain_def sample_world_fields)
  have "RecoveryJSON sample_lib dial_chain sample_world = (Some NilPointerDereference, sample_world\<lparr>clock := 1005\<rparr>)"
    using RecoveryJSON_Panicked[of dial_chain sample_world "IsError (OpError ''dial'' None)"
            "''goroutine 11 [running]''" "sample_world\<lparr>clock := 1005\<rparr>" sample_lib, OF h]
    by (simp add: recovered_panics[OF dial_panics])
  then show ?thesis
    using h by (simp add: dial_panics sample_world_def)
qed

text \<open>
  The log line of the spec's first scenario, where the classifier returns false: 250
  units of time after the start, with the secret of the \<open>Authorization\<close> header
  replaced in the dump.
\<close>

lemma one_log_line_sample:
  "logs (snd (RecoveryJSON sample_lib boom_chain sample_world)) =
     [(panic_format,
       [Duration 250, Str ''GET'', Str ''/panel/api'', Bool False, Err (ErrorString ''boom''),
        Str (''GET /panel/api HTTP/1.1'' @ CRLF @ ''Accept: */*'' @ CRLF @ ''Authorization: ***REDACTED***''),
        Bytes ''goroutine 7 [running]''])]"
proof -
  let ?w = "sample_world\<lparr>clock := clock sample_world + 250\<rparr>"
  have h1: "boom_chain sample_world = (Panicked (Other ''boom'') ''goroutine 7 [running]'', ?w)"
    by (simp add: boom_chain_def)
  have h2: "valid_request (mem ?w) (Request (ctx ?w))"
    by (simp add: eval_world)
  have d: "dump_text sample_lib (DumpRequest_text sample_lib (snapshot_request sample_heap 0) (snapshot_header sample_heap 0))
      = ''GET /panel/api HTTP/1.1'' @ CRLF @ ''Accept: */*'' @ CRLF @ ''Authorization: ***REDACTED***''"
    using sample_dump by (simp only: dumpRequestSafe_text)
  from one_log_line[of boom_chain sample_world "Other ''boom''" "''goroutine 7 [running]''"
         ?w sample_lib False, OF h1 boom_not_broken h2]
  show ?thesis
    by (simp add: d as_error_def sample_world_fields sample_request)
qed

text \<open>
  In the request of \<open>traced_heap\<close> the header \<open>Cookie\<close> has an empty first value and
  keeps both its values, so that \<open>sid=abc\<close> is in the dump; \<open>Set-Cookie\<close> has two
  non-empty values and is left with the marker alone.
\<close>

theorem redaction_first_value_witness:
  "snapshot_header traced_heap 0 ''Cookie'' = Some ['''', ''sid=abc'']
   \<and> snapshot_header traced_heap 0 ''Set-Cookie'' = Some [''***REDACTED***'']
   \<and> fst (dumpRequestSafe sample_lib traced_heap 0) =
       ''GET /panel/api HTTP/1.1'' @ CRLF @ ''Cookie: '' @ CRLF @ ''Cookie: sid=abc'' @ CRLF
       @ ''Set-Cookie: ***REDACTED***''"
proof -
  have c: "header_of traced_heap (Header (requests traced_heap ! 0)) ''Cookie'' = Some ([] # [''sid=abc''])"
    by (simp add: traced_headers)
  have s: "header_of traced_heap (Header (requests traced_heap ! 0)) ''Set-Cookie'' = Some (''a=1'' # [''b=2''])"
    by (simp add: traced_headers)
  have c': "snapshot_header traced_heap 0 ''Cookie'' = Some ['''', ''sid=abc'']"
    and d: "fst (dumpRequestSafe sample_lib traced_heap 0) =
           dump_text sample_lib (DumpRequest_text sample_lib (snapshot_request traced_heap 0) (snapshot_header traced_heap 0))"
    using redaction_first_value[OF sensitive_names(2) c, of sample_lib] by simp_all
  have s': "snapshot_header traced_heap 0 ''Set-Cookie'' = Some [''***REDACTED***'']"
    using redaction_first_value[OF sensitive_names(3) s, of sample_lib] by (simp add: marker_def)
  have "fst (dumpRequestSafe sample_lib traced_heap 0) =
       ''GET /panel/api HTTP/1.1'' @ CRLF @ ''Cookie: '' @ CRLF @ ''Cookie: sid=abc'' @ CRLF
       @ ''Set-Cookie: ***REDACTED***''"
    by (simp add: d c' s' traced_snapshot eval_dump)
  with c' s' show ?thesis by simp
qed

text \<open>
  A serializer that fails, in the spec's first scenario: the dump is the placeholder,
  the log line carries it, the request is aborted, and the interceptor returns.
\<close>

theorem dump_failure_placeholder_witness:
  "fst (dumpRequestSafe failing_lib sample_heap 0) = ''could not dump request: short write''
   \<and> fst (RecoveryJSON failing_lib boom_chain sample_world) = None
   \<and> (\<exists>d m u. logs (snd (RecoveryJSON failing_lib boom_chain sample_world)) =
         [(panic_format,
           [Duration d, Str m, Str u, Bool False, Err (ErrorString ''boom''),
            Str ''could not dump request: short write'', Bytes ''goroutine 7 [running]''])])
   \<and> aborted (ctx (snd (RecoveryJSON failing_lib boom_chain sample_world)))"
proof -
  let ?w = "sample_world\<lparr>clock := clock sample_world + 250\<rparr>"
  have h1: "boom_chain sample_world = (Panicked (Other ''boom'') ''goroutine 7 [running]'', ?w)"
    by (simp add: boom_chain_def)
  have h2: "DumpRequest_text failing_lib (snapshot_request sample_heap 0) (snapshot_header sample_heap 0)
              = Inl (ErrorString ''short write'')"
    by (simp add: sample_lib_fields failing_ser_def)
  have v: "verb_v failing_lib (ErrorString ''short write'') = ''short write''"
    by (simp add: verb_v_def)
  have f: "mem ?w = sample_heap" "Request (ctx ?w) = 0" "logs ?w = []"
    by (simp_all add: sample_world_fields)
  from dump_failure_placeholder[of failing_lib sample_heap 0 "ErrorString ''short write''"
         boom_chain sample_world "Other ''boom''" "''goroutine 7 [running]''" ?w False, OF h2]
       h1 f boom_not_broken[of failing_lib]
  show ?thesis
    by (simp add: v as_error_def)
qed


text \<open>
  The spec's second scenario: the chain panics with an error that wraps a network
  error whose text is ``write: broken pipe''.
\<close>

theorem broken_pipe_writes_nothing_witness:
  "responses (ctx (snd (RecoveryJSON sample_lib pipe_chain sample_world))) = []
   \<and> Errors (ctx (snd (RecoveryJSON sample_lib pipe_chain sample_world))) = [pipe_error]
   \<and> aborted (ctx (snd (RecoveryJSON sample_lib pipe_chain sample_world)))
   \<and> fst (RecoveryJSON sample_lib pipe_chain sample_world) = None"
proof -
  let ?w = "sample_world\<lparr>clock := clock sample_world + 40\<rparr>"
  have h1: "pipe_chain sample_world = (Panicked (IsError pipe_error) ''goroutine 9 [running]'', ?w)"
    by (simp add: pipe_chain_def)
  have c: "responses (ctx ?w) = []" "Errors (ctx ?w) = []"
    by (simp_all add: eval_world)
  from broken_pipe_writes_nothing[of pipe_chain sample_world "IsError pipe_error"
         "''goroutine 9 [running]''" ?w sample_lib, OF h1 pipe_broken]
  show ?thesis by (simp add: c as_error_def sample_world_fields)
qed

text \<open>
  A chain that answers 200 and returns: the interceptor hands back the state of the
  chain.
\<close>

theorem no_fault_pass_through_witness:
  "RecoveryJSON sample_lib ok_chain sample_world =
     (None, sample_world\<lparr>ctx := (ctx sample_world)\<lparr>responses := [(200, [(''success'', ''true'')])]\<rparr>\<rparr>)
   \<and> logs (snd (RecoveryJSON sample_lib ok_chain sample_world)) = []"
proof -
  have h: "ok_chain sample_world =
      (Returned, sample_world\<lparr>ctx := (ctx sample_world)\<lparr>responses := [(200, [(''success'', ''true'')])]\<rparr>\<rparr>)"
    by (simp add: ok_chain_def)
  from no_fault_pass_through[of ok_chain sample_world _ sample_lib, OF h] show ?thesis
    by (simp add: sample_world_def)
qed

text \<open>
  The store of the first scenario after the interceptor has run: the one header map
  and the one body stream that were there are as they were.
\<close>

theorem original_request_untouched_witness:
  "take 1 (headers (snd (dumpRequestSafe sample_lib sample_heap 0))) = headers sample_heap
   \<and> take 1 (requests (snd (dumpRequestSafe sample_lib sample_heap 0))) = requests sample_heap
   \<and> bodies (mem (snd (RecoveryJSON sample_lib boom_chain sample_world))) = [''{}'']"
  using original_request_untouched[of sample_heap sample_lib 0 boom_chain sample_world]
  by (simp add: sample_heap_def boom_chain_def sample_world_def)

end
